theory Spec2Isabelle
  imports Complex_Main "HOL-Library.Product_Lexorder"
begin

section \<open>Data model: the table that pandas holds for the budget tracker\<close>

text \<open>
  The program is one script, \<^verbatim>\<open>streamlit_app.py\<close>. Every run of it loads
  \<^verbatim>\<open>data/transactions.csv\<close> into a pandas data frame, applies at most one
  mutation, writes the frame back and stops. The embedding below keeps the parts of a data
  frame the script relies on: the list of column names, the index label of every row and
  the cells of every row, in row order.

  A timestamp is year, month, day and the nanoseconds since midnight; tuples are ordered
  lexicographically, which is the order of the instants they denote. Amounts are the
  floats of the script read as real numbers.
\<close>

type_synonym timestamp = "nat \<times> nat \<times> nat \<times> nat"

datatype cell = NaN | Str string | Num real | Bool bool | Ts timestamp

datatype error = KeyError string | ValueError | TypeError | ParserError | EmptyDataError
  | WidgetBound

record frame =
  columns :: "string list"
  body :: "(nat \<times> cell list) list"

definition bind :: "error + 'a \<Rightarrow> ('a \<Rightarrow> error + 'b) \<Rightarrow> error + 'b" where
  "bind m f = (case m of Inl e \<Rightarrow> Inl e | Inr x \<Rightarrow> f x)"

fun col_pos :: "string list \<Rightarrow> string \<Rightarrow> nat option" where
  "col_pos [] c = None"
| "col_pos (x # xs) c = (if x = c then Some 0 else map_option Suc (col_pos xs c))"

definition cell_at :: "nat \<Rightarrow> cell list \<Rightarrow> cell" where
  "cell_at j r = (if j < length r then r ! j else NaN)"

text \<open>\<^verbatim>\<open>df[c]\<close>: the cells of column \<open>c\<close> in row order; a missing column raises.\<close>

definition getitem :: "frame \<Rightarrow> string \<Rightarrow> error + cell list" where
  "getitem df c = (case col_pos (columns df) c of
       None \<Rightarrow> Inl (KeyError c)
     | Some j \<Rightarrow> Inr (map (\<lambda>lr. cell_at j (snd lr)) (body df)))"

text \<open>\<^verbatim>\<open>series == v\<close> and \<^verbatim>\<open>df[mask]\<close>. The scalar is never a missing value in
  the script, so a missing cell compares unequal, as in pandas.\<close>

definition eq_mask :: "cell list \<Rightarrow> cell \<Rightarrow> bool list" where
  "eq_mask cs v = map (\<lambda>c. c = v) cs"

definition and_mask :: "bool list \<Rightarrow> bool list \<Rightarrow> bool list" where
  "and_mask ms ns = map (\<lambda>mn. fst mn \<and> snd mn) (zip ms ns)"

definition bool_index :: "bool list \<Rightarrow> frame \<Rightarrow> frame" where
  "bool_index ms df = df\<lparr>body := map snd (filter fst (zip ms (body df)))\<rparr>"

text \<open>
  \<^verbatim>\<open>series.sum()\<close> adds the numbers from the first row down and skips missing
  values; booleans count as 0 and 1. A text or a timestamp among the cells makes the
  arithmetic and formatting that the script does with the sum raise, so the model raises
  at the sum.
\<close>

fun sum_from :: "real \<Rightarrow> cell list \<Rightarrow> error + real" where
  "sum_from acc [] = Inr acc"
| "sum_from acc (NaN # cs) = sum_from acc cs"
| "sum_from acc (Num x # cs) = sum_from (acc + x) cs"
| "sum_from acc (Bool b # cs) = sum_from (acc + of_bool b) cs"
| "sum_from acc (Str s # cs) = Inl TypeError"
| "sum_from acc (Ts t # cs) = Inl TypeError"

definition series_sum :: "cell list \<Rightarrow> error + real" where
  "series_sum cs = sum_from 0 cs"

text \<open>\<^verbatim>\<open>df[c] = values\<close>: an existing column is overwritten in place, a new one is
  added as the last column.\<close>

definition setitem :: "frame \<Rightarrow> string \<Rightarrow> cell list \<Rightarrow> frame" where
  "setitem df c vs = (case col_pos (columns df) c of
       Some j \<Rightarrow> df\<lparr>body := map (\<lambda>p. (fst (fst p), (snd (fst p))[j := snd p])) (zip (body df) vs)\<rparr>
     | None \<Rightarrow> df\<lparr>columns := columns df @ [c],
                  body := map (\<lambda>p. (fst (fst p), snd (fst p) @ [snd p])) (zip (body df) vs)\<rparr>)"

text \<open>\<^verbatim>\<open>df.dropna(subset=[c])\<close>: the rows whose cell in column \<open>c\<close> is missing go; the
  others keep their labels.\<close>

definition dropna :: "frame \<Rightarrow> string \<Rightarrow> error + frame" where
  "dropna df c = bind (getitem df c) (\<lambda>cs. Inr (bool_index (map (\<lambda>x. x \<noteq> NaN) cs) df))"

text \<open>The \<^verbatim>\<open>.dt\<close> accessor on the Date column, which holds timestamps or
  \<^verbatim>\<open>NaT\<close> once \<^verbatim>\<open>to_datetime\<close> has run: \<^verbatim>\<open>.dt.normalize()\<close> and
  \<^verbatim>\<open>.dt.to_period("M").astype(str)\<close>. The month is written as \<^verbatim>\<open>YYYY-MM\<close>, which
  is also what \<^verbatim>\<open>strftime('%Y-%m')\<close> gives.\<close>

definition normalize :: "timestamp \<Rightarrow> timestamp" where
  "normalize t = (case t of (y, m, d, n) \<Rightarrow> (y, m, d, 0))"

definition digit :: "nat \<Rightarrow> char" where
  "digit n = ''0123456789'' ! (n mod 10)"

definition month_str :: "timestamp \<Rightarrow> string" where
  "month_str t = (case t of (y, m, d, n) \<Rightarrow>
     [digit (y div 1000), digit (y div 100), digit (y div 10), digit y, CHR ''-'',
      digit (m div 10), digit m])"

fun dt_normalize :: "cell \<Rightarrow> cell" where
  "dt_normalize (Ts t) = Ts (normalize t)"
| "dt_normalize c = NaN"

fun dt_month :: "cell \<Rightarrow> cell" where
  "dt_month (Ts t) = Str (month_str t)"
| "dt_month c = Str ''NaT''"

text \<open>
  \<^verbatim>\<open>df.sort_values(by=c, ascending=False)\<close>: the rows in descending order of the
  timestamps of column \<open>c\<close>, each row keeping its label, rows without a timestamp last.
  Rows with equal timestamps keep their order, which is what pandas does on the short
  tables of a personal ledger; no statement below depends on the order of ties.
\<close>

fun date_gt :: "cell \<Rightarrow> cell \<Rightarrow> bool" where
  "date_gt (Ts a) (Ts b) = (b < a)"
| "date_gt (Ts a) c = True"
| "date_gt c d = False"

fun insert_desc :: "nat \<Rightarrow> nat \<times> cell list \<Rightarrow> (nat \<times> cell list) list \<Rightarrow> (nat \<times> cell list) list"
  where
  "insert_desc j x [] = [x]"
| "insert_desc j x (y # ys) =
     (if date_gt (cell_at j (snd y)) (cell_at j (snd x)) then y # insert_desc j x ys
      else x # y # ys)"

definition sort_values_desc :: "frame \<Rightarrow> string \<Rightarrow> error + frame" where
  "sort_values_desc df c = (case col_pos (columns df) c of
       None \<Rightarrow> Inl (KeyError c)
     | Some j \<Rightarrow> Inr (df\<lparr>body := foldr (insert_desc j) (body df) []\<rparr>))"

text \<open>\<^verbatim>\<open>df.reset_index(drop=True)\<close>: the same rows with the labels 0, 1, 2, ... in
  their current order; the old labels are thrown away.\<close>

definition reset_index :: "frame \<Rightarrow> frame" where
  "reset_index df = df\<lparr>body := enumerate 0 (map snd (body df))\<rparr>"

text \<open>\<^verbatim>\<open>df.index[i]\<close>, the label of the row at position \<open>i\<close>.\<close>

definition index_at :: "frame \<Rightarrow> nat \<Rightarrow> nat" where
  "index_at df i = fst (body df ! i)"

text \<open>
  \<^verbatim>\<open>df.loc[l, c] = v\<close> addresses rows by label: every row labelled \<open>l\<close> gets \<open>v\<close> in
  column \<open>c\<close>. When no row has the label, pandas enlarges the frame by a row with that
  label, missing values in the other columns; when the column is new it is added too.
\<close>

definition has_label :: "frame \<Rightarrow> nat \<Rightarrow> bool" where
  "has_label df l = (l \<in> set (map fst (body df)))"

definition ensure_col :: "string \<Rightarrow> frame \<Rightarrow> frame" where
  "ensure_col c df = (if col_pos (columns df) c \<noteq> None then df
     else df\<lparr>columns := columns df @ [c],
              body := map (\<lambda>lr. (fst lr, snd lr @ [NaN])) (body df)\<rparr>)"

definition ensure_row :: "nat \<Rightarrow> frame \<Rightarrow> frame" where
  "ensure_row l df = (if has_label df l then df
     else df\<lparr>body := body df @ [(l, replicate (length (columns df)) NaN)]\<rparr>)"

definition loc_set :: "nat \<Rightarrow> string \<Rightarrow> cell \<Rightarrow> frame \<Rightarrow> frame" where
  "loc_set l c v df =
     (let d = ensure_row l (ensure_col c df) in
      case col_pos (columns d) c of
        None \<Rightarrow> d
      | Some j \<Rightarrow> d\<lparr>body := map (\<lambda>lr. if fst lr = l then (fst lr, (snd lr)[j := v]) else lr)
                                (body d)\<rparr>)"

text \<open>\<^verbatim>\<open>df.drop(l)\<close> removes the rows labelled \<open>l\<close> and raises when there is none.\<close>

definition drop_label :: "frame \<Rightarrow> nat \<Rightarrow> error + frame" where
  "drop_label df l = (if has_label df l
     then Inr (df\<lparr>body := filter (\<lambda>lr. fst lr \<noteq> l) (body df)\<rparr>)
     else Inl (KeyError ''label''))"

text \<open>\<^verbatim>\<open>pd.DataFrame([vals], columns=cols)\<close> raises unless there is one value per
  column; \<^verbatim>\<open>pd.concat([df, new_row], ignore_index=True)\<close> on frames with the same
  columns puts the rows of the second after those of the first and relabels from 0.\<close>

definition new_frame :: "string list \<Rightarrow> cell list \<Rightarrow> error + frame" where
  "new_frame cols vals = (if length vals = length cols
     then Inr \<lparr>columns = cols, body = [(0, vals)]\<rparr> else Inl ValueError)"

definition concat_ignore_index :: "frame \<Rightarrow> frame \<Rightarrow> frame" where
  "concat_ignore_index df nr =
     \<lparr>columns = columns df, body = enumerate 0 (map snd (body df) @ map snd (body nr))\<rparr>"



section \<open>Transaction store: the CSV file, \<open>load_data\<close> and \<open>save_data\<close>\<close>

text \<open>
  The backing file is a header line and records of text fields; the quoting that the CSV
  writer and reader agree on is not modelled. \<open>None\<close> stands for a file that does not
  exist.

  What pandas itself does with one value is a parameter of the model, a \<open>codec\<close>:
  \<open>show_num\<close> is the text \<^verbatim>\<open>to_csv\<close> writes for a float, \<open>parse_num\<close> the number
  \<^verbatim>\<open>read_csv\<close> reads from a field (\<open>None\<close> when the field is not numeric),
  \<open>show_ts\<close> the text written for a timestamp, and \<open>to_dt\<close> what
  \<^verbatim>\<open>pd.to_datetime(..., errors='coerce')\<close> makes of a value that is neither a
  timestamp nor missing (\<open>None\<close> when it does not parse, which pandas turns into
  \<^verbatim>\<open>NaT\<close>).
\<close>

record csv_file =
  header :: "string list"
  records :: "string list list"

record codec =
  show_num :: "real \<Rightarrow> string"
  parse_num :: "string \<Rightarrow> real option"
  show_ts :: "timestamp \<Rightarrow> string"
  to_dt :: "cell \<Rightarrow> timestamp option"

text \<open>The fields \<^verbatim>\<open>read_csv\<close> takes for missing values and for booleans by default.\<close>

definition na_values :: "string list" where
  "na_values = ['''', ''#N/A'', ''#N/A N/A'', ''#NA'', ''-1.#IND'', ''-1.#QNAN'', ''-NaN'',
     ''-nan'', ''1.#IND'', ''1.#QNAN'', ''<NA>'', ''N/A'', ''NA'', ''NULL'', ''NaN'', ''None'',
     ''n/a'', ''nan'', ''null'']"

definition true_values :: "string list" where
  "true_values = [''True'', ''TRUE'', ''true'']"

definition false_values :: "string list" where
  "false_values = [''False'', ''FALSE'', ''false'']"

definition is_na :: "string \<Rightarrow> bool" where
  "is_na s = (s \<in> set na_values)"

definition is_bool :: "string \<Rightarrow> bool" where
  "is_bool s = (s \<in> set true_values \<or> s \<in> set false_values)"

text \<open>
  \<^verbatim>\<open>read_csv\<close> types a column as a whole: a field that is a missing-value token is
  \<^verbatim>\<open>NaN\<close>; if every other field of the column is numeric the column holds numbers,
  else if every other field is a boolean token it holds booleans, else it holds the texts
  as they are.
\<close>

definition read_field :: "codec \<Rightarrow> string list \<Rightarrow> string \<Rightarrow> cell" where
  "read_field cd col s =
     (if is_na s then NaN
      else if list_all (\<lambda>t. is_na t \<or> parse_num cd t \<noteq> None) col
        then (case parse_num cd s of Some x \<Rightarrow> Num x | None \<Rightarrow> NaN)
      else if list_all (\<lambda>t. is_na t \<or> is_bool t) col then Bool (s \<in> set true_values)
      else Str s)"

definition column_texts :: "string list list \<Rightarrow> nat \<Rightarrow> string list" where
  "column_texts recs j = map (\<lambda>r. r ! j) recs"

definition read_record :: "codec \<Rightarrow> string list list \<Rightarrow> string list \<Rightarrow> cell list" where
  "read_record cd recs r =
     map (\<lambda>j. read_field cd (column_texts recs j) (r ! j)) [0..<length r]"

text \<open>
  \<^verbatim>\<open>pd.read_csv(DATA_FILE)\<close>: the header gives the columns, the records get the
  labels 0, 1, 2, ... in file order. A file without a header raises; the model also raises
  on a record whose number of fields differs from the header's (pandas pads, re-indexes
  or raises there, and the application never writes such a file).
\<close>

definition read_csv :: "codec \<Rightarrow> csv_file \<Rightarrow> error + frame" where
  "read_csv cd f =
     (if header f = [] then Inl EmptyDataError
      else if \<not> list_all (\<lambda>r. length r = length (header f)) (records f) then Inl ParserError
      else Inr \<lparr>columns = header f,
                body = enumerate 0 (map (read_record cd (records f)) (records f))\<rparr>)"

text \<open>\<^verbatim>\<open>pd.to_datetime(series, errors='coerce')\<close>, cell by cell.\<close>

definition to_datetime :: "codec \<Rightarrow> cell \<Rightarrow> cell" where
  "to_datetime cd c = (case c of
       Ts t \<Rightarrow> Ts t
     | NaN \<Rightarrow> NaN
     | _ \<Rightarrow> (case to_dt cd c of Some t \<Rightarrow> Ts t | None \<Rightarrow> NaN))"

text \<open>Lines 15 and 16, and again lines 48 and 49:
  \<^verbatim>\<open>df["Date"] = pd.to_datetime(df["Date"], errors='coerce')\<close>, then
  \<^verbatim>\<open>df = df.dropna(subset=["Date"])\<close>.\<close>

definition clean_dates :: "codec \<Rightarrow> frame \<Rightarrow> error + frame" where
  "clean_dates cd df =
     bind (getitem df ''Date'') (\<lambda>ds.
     dropna (setitem df ''Date'' (map (to_datetime cd) ds)) ''Date'')"

definition empty_ledger :: frame where
  "empty_ledger = \<lparr>columns = [''Date'', ''Type'', ''Amount'', ''Category''], body = []\<rparr>"

definition load_data :: "codec \<Rightarrow> csv_file option \<Rightarrow> error + frame" where
  "load_data cd fs = (case fs of
       Some f \<Rightarrow> bind (read_csv cd f) (clean_dates cd)
     | None \<Rightarrow> Inr empty_ledger)"

text \<open>\<^verbatim>\<open>df.to_csv(DATA_FILE, index=False)\<close>: every column of the frame is written,
  the labels are not; a missing value is written as an empty field.\<close>

fun show_cell :: "codec \<Rightarrow> cell \<Rightarrow> string" where
  "show_cell cd NaN = ''''"
| "show_cell cd (Str s) = s"
| "show_cell cd (Num x) = show_num cd x"
| "show_cell cd (Bool b) = (if b then ''True'' else ''False'')"
| "show_cell cd (Ts t) = show_ts cd t"

definition save_data :: "codec \<Rightarrow> frame \<Rightarrow> csv_file" where
  "save_data cd df =
     \<lparr>header = columns df, records = map (\<lambda>lr. map (show_cell cd) (snd lr)) (body df)\<rparr>"

section \<open>Aggregator\<close>

text \<open>Lines 53 to 55:
  \<^verbatim>\<open>total_income = df[df["Type"] == "Income"]["Amount"].sum()\<close>, the same for
  \<^verbatim>\<open>"Expense"\<close>, and \<^verbatim>\<open>balance = total_income - total_expense\<close>.\<close>

definition type_sum :: "frame \<Rightarrow> string \<Rightarrow> error + real" where
  "type_sum df ty =
     bind (getitem df ''Type'') (\<lambda>tys.
     bind (getitem (bool_index (eq_mask tys (Str ty)) df) ''Amount'') series_sum)"

definition totals :: "frame \<Rightarrow> error + real \<times> real \<times> real" where
  "totals df =
     bind (type_sum df ''Income'') (\<lambda>total_income.
     bind (type_sum df ''Expense'') (\<lambda>total_expense.
     Inr (total_income, total_expense, total_income - total_expense)))"

text \<open>Lines 87 to 90: the branch on \<^verbatim>\<open>monthly_expense > limit\<close>.\<close>

datatype budget = WithinBudget | OverBudget

definition budget_status :: "real \<Rightarrow> real \<Rightarrow> budget" where
  "budget_status monthly_expense limit =
     (if monthly_expense > limit then OverBudget else WithinBudget)"

text \<open>Lines 64 to 70. \<open>now\<close> is \<^verbatim>\<open>datetime.today()\<close>; the count is
  \<^verbatim>\<open>len(df_today)\<close>.\<close>

definition today_summary :: "timestamp \<Rightarrow> frame \<Rightarrow> error + real \<times> real \<times> real \<times> nat" where
  "today_summary now df =
     bind (getitem df ''Date'') (\<lambda>ds.
     let df_today = bool_index (eq_mask (map dt_normalize ds) (Ts (normalize now))) df in
     bind (type_sum df_today ''Income'') (\<lambda>today_income.
     bind (type_sum df_today ''Expense'') (\<lambda>today_expense.
     Inr (today_income, today_expense, today_income - today_expense,
          length (body df_today)))))"

text \<open>Line 83 (and line 134):
  \<^verbatim>\<open>df["Month"] = df["Date"].dt.to_period("M").astype(str)\<close>.\<close>

definition add_month :: "frame \<Rightarrow> error + frame" where
  "add_month df = bind (getitem df ''Date'') (\<lambda>ds. Inr (setitem df ''Month'' (map dt_month ds)))"

text \<open>Lines 84 and 86:
  \<^verbatim>\<open>df[(df["Type"] == "Expense") & (df["Month"] == current_month)]["Amount"].sum()\<close>.\<close>

definition monthly_expense :: "timestamp \<Rightarrow> frame \<Rightarrow> error + real" where
  "monthly_expense now df =
     bind (getitem df ''Type'') (\<lambda>tys.
     bind (getitem df ''Month'') (\<lambda>ms.
     bind (getitem (bool_index (and_mask (eq_mask tys (Str ''Expense''))
                                         (eq_mask ms (Str (month_str now)))) df) ''Amount'')
       series_sum))"





section \<open>Transaction ledger: the three mutations, as runs of the script\<close>

text \<open>
  A run starts from the file and ends, when a form was submitted, with the file it wrote.
  The values the widgets hand over are arguments; the bounds the widgets put on them
  (\<^verbatim>\<open>min_value\<close>, \<^verbatim>\<open>max_value\<close>, the two options of the select box) are checks of
  the model, failing with \<open>WidgetBound\<close>. A date widget hands over a calendar day, which
  \<^verbatim>\<open>pd.to_datetime\<close> turns into its midnight.
\<close>

definition midnight :: "nat \<times> nat \<times> nat \<Rightarrow> timestamp" where
  "midnight day = (case day of (y, m, d) \<Rightarrow> (y, m, d, 0))"

definition known_type :: "string \<Rightarrow> bool" where
  "known_type ty = (ty = ''Income'' \<or> ty = ''Expense'')"

text \<open>Lines 29 to 45, the add form: the new row takes its column names from the loaded
  frame, is put after its rows, and the whole frame is written.\<close>

definition add_transaction ::
  "codec \<Rightarrow> csv_file option \<Rightarrow> nat \<times> nat \<times> nat \<Rightarrow> string \<Rightarrow> real \<Rightarrow> string \<Rightarrow> error + csv_file"
  where
  "add_transaction cd fs date ty amount category =
     bind (load_data cd fs) (\<lambda>df.
     if amount < 0 \<or> \<not> known_type ty then Inl WidgetBound
     else
       bind (new_frame (columns df) [Ts (midnight date), Str ty, Num amount, Str category])
         (\<lambda>new_row. Inr (save_data cd (concat_ignore_index df new_row))))"

text \<open>Lines 47 to 95 of a run in which the add form was not submitted: the dates are
  cleaned again, the summary figures are computed (and raise when an amount they add is
  not a number), the Month column is added to \<^verbatim>\<open>df\<close> itself, and a frame that is not
  empty is replaced by its sorted copy.\<close>

definition display :: "codec \<Rightarrow> timestamp \<Rightarrow> frame \<Rightarrow> error + frame" where
  "display cd now df0 =
     bind (clean_dates cd df0) (\<lambda>df.
     bind (totals df) (\<lambda>summary.
     bind (today_summary now df) (\<lambda>today.
     bind (add_month df) (\<lambda>df.
     bind (monthly_expense now df) (\<lambda>spent.
     if body df = [] then Inr df else sort_values_desc df ''Date'')))))"

text \<open>\<^verbatim>\<open>float(row["Amount"])\<close> of line 105 raises on a text that is not a number and
  on a timestamp.\<close>

definition float_check :: "codec \<Rightarrow> cell \<Rightarrow> error + unit" where
  "float_check cd c = (case c of
       Str s \<Rightarrow> (if parse_num cd s = None then Inl ValueError else Inr ())
     | Ts t \<Rightarrow> Inl TypeError
     | _ \<Rightarrow> Inr ())"

text \<open>
  Lines 94 to 108, up to the buttons: \<^verbatim>\<open>df\<close> is the sorted frame, which still has the
  labels the rows got when the file was read; \<^verbatim>\<open>df_display\<close> is its copy with fresh
  labels. The form is there when the frame is not empty, the row number is bounded by
  \<^verbatim>\<open>len(df_display) - 1\<close>, and the defaults of the form are read from
  \<^verbatim>\<open>df_display.loc[index_to_edit]\<close>. The result is \<^verbatim>\<open>df\<close> with the label
  \<^verbatim>\<open>df_display.index[index_to_edit]\<close> that both buttons use.
\<close>

definition edit_form :: "codec \<Rightarrow> timestamp \<Rightarrow> csv_file option \<Rightarrow> nat \<Rightarrow> error + frame \<times> nat" where
  "edit_form cd now fs index_to_edit =
     bind (load_data cd fs) (\<lambda>df0.
     bind (display cd now df0) (\<lambda>df.
     let df_display = reset_index df in
     if body df = [] \<or> \<not> index_to_edit < length (body df_display) then Inl WidgetBound
     else
       bind (getitem df_display ''Amount'') (\<lambda>amounts.
       bind (float_check cd (amounts ! index_to_edit)) (\<lambda>u.
       bind (getitem df_display ''Type'') (\<lambda>types.
       bind (getitem df_display ''Category'') (\<lambda>categories.
       bind (getitem df_display ''Date'') (\<lambda>dates.
       Inr (df, index_at df_display index_to_edit))))))))"

text \<open>Lines 114 to 119, the update button: four assignments through \<^verbatim>\<open>df.loc\<close> at
  that label, then \<^verbatim>\<open>save_data(df)\<close>. The edit form puts no bound on the amount.\<close>

definition update_row :: "nat \<Rightarrow> real \<Rightarrow> string \<Rightarrow> string \<Rightarrow> timestamp \<Rightarrow> frame \<Rightarrow> frame" where
  "update_row l new_amount new_type new_category new_date df =
     loc_set l ''Date'' (Ts new_date)
       (loc_set l ''Category'' (Str new_category)
         (loc_set l ''Type'' (Str new_type)
           (loc_set l ''Amount'' (Num new_amount) df)))"

definition edit_transaction ::
  "codec \<Rightarrow> timestamp \<Rightarrow> csv_file option \<Rightarrow> nat \<Rightarrow> nat \<times> nat \<times> nat \<Rightarrow> string \<Rightarrow> real \<Rightarrow> string
     \<Rightarrow> error + csv_file" where
  "edit_transaction cd now fs index_to_edit new_date new_type new_amount new_category =
     bind (edit_form cd now fs index_to_edit) (\<lambda>dl.
     if \<not> known_type new_type then Inl WidgetBound
     else Inr (save_data cd
       (update_row (snd dl) new_amount new_type new_category (midnight new_date) (fst dl))))"

text \<open>Lines 123 to 125, the delete button: \<^verbatim>\<open>df.drop\<close> at that label, then
  \<^verbatim>\<open>save_data(df)\<close>.\<close>

definition delete_transaction ::
  "codec \<Rightarrow> timestamp \<Rightarrow> csv_file option \<Rightarrow> nat \<Rightarrow> error + csv_file" where
  "delete_transaction cd now fs index_to_edit =
     bind (edit_form cd now fs index_to_edit) (\<lambda>dl.
     bind (drop_label (fst dl) (snd dl)) (\<lambda>df. Inr (save_data cd df)))"

section \<open>A codec for the examples\<close>

text \<open>
  The examples below need a concrete codec. This one writes a date as \<^verbatim>\<open>YYYY-MM-DD\<close>
  and reads that form back, and writes an amount in decimal notation with one digit after
  the point (\<^verbatim>\<open>30.0\<close>, \<^verbatim>\<open>-45.0\<close>) and reads decimal notation back: what pandas does
  with the dates and amounts that occur in the examples.
\<close>

definition digit_val :: "char \<Rightarrow> nat option" where
  "digit_val = map_of [(CHR ''0'', 0), (CHR ''1'', 1), (CHR ''2'', 2), (CHR ''3'', 3),
     (CHR ''4'', 4), (CHR ''5'', 5), (CHR ''6'', 6), (CHR ''7'', 7), (CHR ''8'', 8),
     (CHR ''9'', 9)]"

fun digits_val :: "nat \<Rightarrow> string \<Rightarrow> nat option" where
  "digits_val acc [] = Some acc"
| "digits_val acc (c # cs) =
     (case digit_val c of None \<Rightarrow> None | Some d \<Rightarrow> digits_val (10 * acc + d) cs)"

definition number_of :: "string \<Rightarrow> nat option" where
  "number_of s = (if s = [] then None else digits_val 0 s)"

fun decimal :: "nat \<Rightarrow> string" where
  "decimal n = (if n < 10 then [digit n] else decimal (n div 10) @ [digit n])"

declare decimal.simps [simp del]

definition iso_show_ts :: "timestamp \<Rightarrow> string" where
  "iso_show_ts t = (case t of (y, m, d, n) \<Rightarrow>
     [digit (y div 1000), digit (y div 100), digit (y div 10), digit y, CHR ''-'',
      digit (m div 10), digit m, CHR ''-'', digit (d div 10), digit d])"

definition iso_parse :: "string \<Rightarrow> timestamp option" where
  "iso_parse s =
     (if length s = 10 \<and> s ! 4 = CHR ''-'' \<and> s ! 7 = CHR ''-'' then
        (case (number_of (take 4 s), number_of (take 2 (drop 5 s)), number_of (drop 8 s)) of
           (Some y, Some m, Some d) \<Rightarrow>
             if 1 \<le> m \<and> m \<le> 12 \<and> 1 \<le> d \<and> d \<le> 31 then Some (y, m, d, 0) else None
         | _ \<Rightarrow> None)
      else None)"

fun iso_to_dt :: "cell \<Rightarrow> timestamp option" where
  "iso_to_dt (Str s) = iso_parse s"
| "iso_to_dt c = None"

definition plain_show_num :: "real \<Rightarrow> string" where
  "plain_show_num x =
     (if x < 0 then ''-'' else '''') @ decimal (nat \<lfloor>\<bar>x\<bar>\<rfloor>) @ ''.''
       @ [digit (nat \<lfloor>10 * (\<bar>x\<bar> - of_int \<lfloor>\<bar>x\<bar>\<rfloor>)\<rfloor>)]"

definition plain_parse_num :: "string \<Rightarrow> real option" where
  "plain_parse_num s =
     (let neg = (s \<noteq> [] \<and> hd s = CHR ''-'');
          u = (if neg then tl s else s);
          ip = takeWhile (\<lambda>c. c \<noteq> CHR ''.'') u;
          fp = drop (Suc (length ip)) u
      in case (number_of ip, if length ip = length u then Some 0 else number_of fp) of
           (Some a, Some b) \<Rightarrow>
             Some ((if neg then - 1 else 1) * (real a + real b / 10 ^ length fp))
         | _ \<Rightarrow> None)"

definition demo :: codec where
  "demo = \<lparr>show_num = plain_show_num, parse_num = plain_parse_num,
           show_ts = iso_show_ts, to_dt = iso_to_dt\<rparr>"

text \<open>The file after the two additions of the end-to-end scenario, and a file in which
  somebody has spoilt the date of the second of three records.\<close>

definition march_file :: csv_file where
  "march_file = \<lparr>header = [''Date'', ''Type'', ''Amount'', ''Category''],
     records = [[''2024-03-01'', ''Expense'', ''30.0'', ''Food''],
                [''2024-03-02'', ''Income'', ''500.0'', ''Salary'']]\<rparr>"

definition spoilt_file :: csv_file where
  "spoilt_file = \<lparr>header = [''Date'', ''Type'', ''Amount'', ''Category''],
     records = [[''2024-03-01'', ''Expense'', ''30.0'', ''Food''],
                [''yesterday'', ''Expense'', ''12.0'', ''Bus''],
                [''2024-03-02'', ''Income'', ''500.0'', ''Salary'']]\<rparr>"

definition spoilt_raw :: frame where
  "spoilt_raw = \<lparr>columns = [''Date'', ''Type'', ''Amount'', ''Category''],
     body = [(0, [Str ''2024-03-01'', Str ''Expense'', Num 30, Str ''Food'']),
             (1, [Str ''yesterday'', Str ''Expense'', Num 12, Str ''Bus'']),
             (2, [Str ''2024-03-02'', Str ''Income'', Num 500, Str ''Salary''])]\<rparr>"

definition spoilt_ledger :: frame where
  "spoilt_ledger = \<lparr>columns = [''Date'', ''Type'', ''Amount'', ''Category''],
     body = [(0, [Ts (2024, 3, 1, 0), Str ''Expense'', Num 30, Str ''Food'']),
             (2, [Ts (2024, 3, 2, 0), Str ''Income'', Num 500, Str ''Salary''])]\<rparr>"

text \<open>A moment in March 2024 for \<^verbatim>\<open>datetime.today()\<close>, and the frame the script
  holds at line 95 when it has loaded \<open>march_file\<close>: sorted for display, with the Month
  column, every row under the label it got when the file was read.\<close>

definition march_now :: timestamp where
  "march_now = (2024, 3, 10, 5)"

definition march_sorted :: frame where
  "march_sorted = \<lparr>columns = [''Date'', ''Type'', ''Amount'', ''Category'', ''Month''],
     body = [(1, [Ts (2024, 3, 2, 0), Str ''Income'', Num 500, Str ''Salary'', Str ''2024-03'']),
             (0, [Ts (2024, 3, 1, 0), Str ''Expense'', Num 30, Str ''Food'', Str ''2024-03''])]\<rparr>"

text \<open>The file after the first addition of the scenario, the file the script leaves when
  the Expense row of \<open>march_file\<close> is deleted by its display position, and a third
  ledger, written on three days.\<close>

definition first_file :: csv_file where
  "first_file = \<lparr>header = [''Date'', ''Type'', ''Amount'', ''Category''],
     records = [[''2024-03-01'', ''Expense'', ''30.0'', ''Food'']]\<rparr>"

definition after_delete_file :: csv_file where
  "after_delete_file = \<lparr>header = [''Date'', ''Type'', ''Amount'', ''Category'', ''Month''],
     records = [[''2024-03-01'', ''Expense'', ''30.0'', ''Food'', ''2024-03'']]\<rparr>"

definition three_file :: csv_file where
  "three_file = \<lparr>header = [''Date'', ''Type'', ''Amount'', ''Category''],
     records = [[''2024-03-01'', ''Expense'', ''30.0'', ''Food''],
                [''2024-03-02'', ''Income'', ''500.0'', ''Salary''],
                [''2024-03-03'', ''Expense'', ''200.0'', ''Rent'']]\<rparr>"

definition three_ledger :: frame where
  "three_ledger = \<lparr>columns = [''Date'', ''Type'', ''Amount'', ''Category''],
     body = [(0, [Ts (2024, 3, 1, 0), Str ''Expense'', Num 30, Str ''Food'']),
             (1, [Ts (2024, 3, 2, 0), Str ''Income'', Num 500, Str ''Salary'']),
             (2, [Ts (2024, 3, 3, 0), Str ''Expense'', Num 200, Str ''Rent''])]\<rparr>"

definition three_sorted :: frame where
  "three_sorted = \<lparr>columns = [''Date'', ''Type'', ''Amount'', ''Category'', ''Month''],
     body = [(2, [Ts (2024, 3, 3, 0), Str ''Expense'', Num 200, Str ''Rent'', Str ''2024-03'']),
             (1, [Ts (2024, 3, 2, 0), Str ''Income'', Num 500, Str ''Salary'', Str ''2024-03'']),
             (0, [Ts (2024, 3, 1, 0), Str ''Expense'', Num 30, Str ''Food'', Str ''2024-03''])]\<rparr>"

section \<open>Reading the claims against the model\<close>

text \<open>The columns a statement needs and the amounts a ledger holds.\<close>

definition has_col :: "frame \<Rightarrow> string \<Rightarrow> bool" where
  "has_col df c = (col_pos (columns df) c \<noteq> None)"

definition col_cell :: "frame \<Rightarrow> string \<Rightarrow> cell list \<Rightarrow> cell" where
  "col_cell df c r = (case col_pos (columns df) c of None \<Rightarrow> NaN | Some j \<Rightarrow> cell_at j r)"

fun is_num :: "cell \<Rightarrow> bool" where
  "is_num (Num x) = True"
| "is_num c = False"

fun num_val :: "cell \<Rightarrow> real" where
  "num_val (Num x) = x"
| "num_val c = 0"

definition numeric_amounts :: "frame \<Rightarrow> bool" where
  "numeric_amounts df = list_all (\<lambda>lr. is_num (col_cell df ''Amount'' (snd lr))) (body df)"

text \<open>The sum the specification describes: over the rows of one type, of their amounts.\<close>

definition amount_of_type :: "frame \<Rightarrow> string \<Rightarrow> real" where
  "amount_of_type df ty =
     (\<Sum>lr\<leftarrow>body df. if col_cell df ''Type'' (snd lr) = Str ty
                     then num_val (col_cell df ''Amount'' (snd lr)) else 0)"

text \<open>The ledger of the end-to-end scenario of the specification.\<close>

definition march_ledger :: frame where
  "march_ledger = \<lparr>columns = [''Date'', ''Type'', ''Amount'', ''Category''],
     body = [(0, [Ts (2024, 3, 1, 0), Str ''Expense'', Num 30, Str ''Food'']),
             (1, [Ts (2024, 3, 2, 0), Str ''Income'', Num 500, Str ''Salary''])]\<rparr>"

text \<open>What the specification says of \<open>load\<close>: a row stays when its date parses, and it
  then holds the parsed date.\<close>

definition date_parses :: "codec \<Rightarrow> frame \<Rightarrow> nat \<times> cell list \<Rightarrow> bool" where
  "date_parses cd df lr = (to_datetime cd (col_cell df ''Date'' (snd lr)) \<noteq> NaN)"

definition with_parsed_date :: "codec \<Rightarrow> frame \<Rightarrow> nat \<times> cell list \<Rightarrow> nat \<times> cell list" where
  "with_parsed_date cd df lr =
     (fst lr, (snd lr)[the (col_pos (columns df) ''Date'') :=
                        to_datetime cd (col_cell df ''Date'' (snd lr))])"

fun is_ts :: "cell \<Rightarrow> bool" where
  "is_ts (Ts t) = True"
| "is_ts c = False"







text \<open>The table without the rows whose type is neither Income nor Expense, and the
  figures of a run that are compared with and without those rows.\<close>

definition known_rows :: "frame \<Rightarrow> frame" where
  "known_rows df =
     df\<lparr>body := filter (\<lambda>lr. col_cell df ''Type'' (snd lr) = Str ''Income''
                              \<or> col_cell df ''Type'' (snd lr) = Str ''Expense'') (body df)\<rparr>"






text \<open>What the table of line 97 shows, what a frame sorted for display looks like, and
  a field of a saved record by its column name.\<close>

definition display_rows ::
  "codec \<Rightarrow> timestamp \<Rightarrow> csv_file option \<Rightarrow> error + (nat \<times> cell list) list" where
  "display_rows cd now fs =
     bind (load_data cd fs) (\<lambda>df0.
     bind (display cd now df0) (\<lambda>df. Inr (body (reset_index df))))"



definition show_row :: "codec \<Rightarrow> nat \<times> cell list \<Rightarrow> string list" where
  "show_row cd lr = map (show_cell cd) (snd lr)"



section \<open>Helper lemmas\<close>

lemma bool_index_eq_mask:
  "map snd (filter fst (zip (map f xs) xs)) = filter f xs"
  by (induction xs) auto

lemma sum_from_nums:
  "list_all is_num cs \<Longrightarrow> sum_from acc cs = Inr (acc + sum_list (map num_val cs))"
proof (induction cs arbitrary: acc)
  case Nil
  then show ?case by simp
next
  case (Cons c cs)
  then show ?case by (cases c) simp_all
qed

lemma sum_list_filter_if:
  "sum_list (map g (filter P xs)) = (\<Sum>x\<leftarrow>xs. if P x then g x else (0::real))"
  by (induction xs) auto

lemma type_sum_numeric:
  assumes "has_col df ''Type''" and "has_col df ''Amount''" and "numeric_amounts df"
  shows "type_sum df ty = Inr (amount_of_type df ty)"
proof -
  obtain i where i: "col_pos (columns df) ''Type'' = Some i"
    using assms(1) by (auto simp: has_col_def)
  obtain j where j: "col_pos (columns df) ''Amount'' = Some j"
    using assms(2) by (auto simp: has_col_def)
  let ?P = "\<lambda>lr. cell_at i (snd lr) = Str ty"
  have sel: "body (bool_index (eq_mask (map (\<lambda>lr. cell_at i (snd lr)) (body df)) (Str ty)) df)
      = filter ?P (body df)"
    using bool_index_eq_mask [of ?P "body df"]
    by (simp add: bool_index_def eq_mask_def comp_def)
  have nums: "list_all is_num (map (\<lambda>lr. cell_at j (snd lr)) (filter ?P (body df)))"
    using assms(3) j by (auto simp: numeric_amounts_def col_cell_def list_all_iff)
  have cols: "columns (bool_index ms df) = columns df" for ms
    by (simp add: bool_index_def)
  have "type_sum df ty
      = series_sum (map (\<lambda>lr. cell_at j (snd lr)) (filter ?P (body df)))"
    by (simp add: type_sum_def bind_def getitem_def i j cols sel)
  also have "\<dots> = Inr (sum_list (map (\<lambda>lr. num_val (cell_at j (snd lr))) (filter ?P (body df))))"
    using sum_from_nums [OF nums, of 0] by (simp add: series_sum_def comp_def)
  also have "\<dots> = Inr (amount_of_type df ty)"
    by (simp add: amount_of_type_def col_cell_def i j sum_list_filter_if cong: if_cong)
  finally show ?thesis .
qed

lemma zip_map_self: "zip xs (map f xs) = map (\<lambda>x. (x, f x)) xs"
  by (induction xs) auto

lemma cell_at_update_datetime:
  "cell_at j (r[j := to_datetime cd (cell_at j r)]) = to_datetime cd (cell_at j r)"
  by (simp add: cell_at_def to_datetime_def)

lemma to_datetime_is_ts: "to_datetime cd c \<noteq> NaN \<Longrightarrow> is_ts (to_datetime cd c)"
  by (cases c) (auto simp: to_datetime_def split: option.splits)

lemma clean_dates_body:
  assumes j: "col_pos (columns df) ''Date'' = Some j"
  shows "clean_dates cd df = Inr \<lparr>columns = columns df,
           body = map (with_parsed_date cd df) (filter (date_parses cd df) (body df))\<rparr>"
proof -
  let ?u = "\<lambda>lr. (fst lr, (snd lr)[j := to_datetime cd (cell_at j (snd lr))])"
  have s: "setitem df ''Date'' (map (to_datetime cd) (map (\<lambda>lr. cell_at j (snd lr)) (body df)))
      = df\<lparr>body := map ?u (body df)\<rparr>"
    by (simp add: setitem_def j zip_map_self comp_def)
  have "dropna (df\<lparr>body := map ?u (body df)\<rparr>) ''Date''
      = Inr (df\<lparr>body := filter (\<lambda>lr. cell_at j (snd lr) \<noteq> NaN) (map ?u (body df))\<rparr>)"
    using bool_index_eq_mask [of "\<lambda>lr. cell_at j (snd lr) \<noteq> NaN" "map ?u (body df)"]
    by (simp add: dropna_def bind_def getitem_def j bool_index_def comp_def)
  also have "filter (\<lambda>lr. cell_at j (snd lr) \<noteq> NaN) (map ?u (body df))
      = map (with_parsed_date cd df) (filter (date_parses cd df) (body df))"
  proof -
    have wp: "with_parsed_date cd df = ?u"
      by (rule ext) (simp add: with_parsed_date_def col_cell_def j)
    have dp: "date_parses cd df = (\<lambda>lr. to_datetime cd (cell_at j (snd lr)) \<noteq> NaN)"
      by (rule ext) (simp add: date_parses_def col_cell_def j)
    show ?thesis
      by (simp add: filter_map comp_def cell_at_update_datetime wp dp)
  qed
  finally have d: "dropna (df\<lparr>body := map ?u (body df)\<rparr>) ''Date''
      = Inr (df\<lparr>body := map (with_parsed_date cd df) (filter (date_parses cd df) (body df))\<rparr>)" .
  have "clean_dates cd df = dropna (df\<lparr>body := map ?u (body df)\<rparr>) ''Date''"
    unfolding clean_dates_def bind_def getitem_def j using s by simp
  then show ?thesis
    using d by simp
qed

lemma clean_dates_all_ts:
  assumes "clean_dates cd df = Inr df'"
  shows "list_all (\<lambda>lr. is_ts (col_cell df' ''Date'' (snd lr))) (body df')"
proof -
  obtain j where j: "col_pos (columns df) ''Date'' = Some j"
    using assms by (cases "col_pos (columns df) ''Date''")
      (auto simp: clean_dates_def bind_def getitem_def)
  have df': "df' = \<lparr>columns = columns df,
           body = map (with_parsed_date cd df) (filter (date_parses cd df) (body df))\<rparr>"
    using assms clean_dates_body [OF j, of cd] by simp
  show ?thesis
    by (auto simp: df' list_all_iff col_cell_def j with_parsed_date_def date_parses_def
        cell_at_update_datetime to_datetime_is_ts)
qed

















lemma col_pos_append_new: "col_pos xs c = None \<Longrightarrow> col_pos (xs @ [c]) c = Some (length xs)"
  by (induction xs) (auto split: if_splits)




lemma has_col_body [simp]: "has_col (df\<lparr>body := b\<rparr>) c = has_col df c"
  by (simp add: has_col_def)

lemma col_cell_body [simp]: "col_cell (df\<lparr>body := b\<rparr>) c = col_cell df c"
  by (rule ext) (simp add: col_cell_def)

lemma has_col_cong: "columns df' = columns df \<Longrightarrow> has_col df' c = has_col df c"
  by (simp add: has_col_def)

lemma col_cell_cong: "columns df' = columns df \<Longrightarrow> col_cell df' c = col_cell df c"
  by (rule ext) (simp add: col_cell_def)




lemma col_cell_known_rows [simp]: "col_cell (known_rows df) c = col_cell df c"
  by (simp add: known_rows_def)

lemma has_col_known_rows [simp]: "has_col (known_rows df) c = has_col df c"
  by (simp add: known_rows_def)









lemma bind_Inr_simp [simp]: "bind (Inr x) f = f x"
  by (simp add: bind_def)

lemma bind_Inl_simp [simp]: "bind (Inl e) f = Inl e"
  by (simp add: bind_def)











lemma date_gt_trans: "date_gt a b \<Longrightarrow> date_gt b c \<Longrightarrow> date_gt a c"
  by (cases a; cases b; cases c) auto










lemma has_col_reset_index [simp]: "has_col (reset_index df) c = has_col df c"
  by (simp add: reset_index_def)




lemma columns_ensure_row [simp]: "columns (ensure_row l df) = columns df"
  by (simp add: ensure_row_def)














text \<open>The equations that evaluate the model on a concrete table.\<close>

lemmas frame_eval = bind_def getitem_def cell_at_def eq_mask_def and_mask_def bool_index_def
  series_sum_def setitem_def dropna_def normalize_def digit_def month_str_def
  sort_values_desc_def reset_index_def index_at_def has_label_def ensure_col_def ensure_row_def
  loc_set_def drop_label_def new_frame_def concat_ignore_index_def
  type_sum_def totals_def today_summary_def add_month_def monthly_expense_def
  to_datetime_def clean_dates_def save_data_def float_check_def update_row_def
  midnight_def known_type_def enumerate_eq_zip Let_def

lemmas run_eval = load_data_def display_def edit_form_def edit_transaction_def
  delete_transaction_def add_transaction_def

lemmas csv_eval = na_values_def true_values_def false_values_def is_na_def is_bool_def
  read_field_def column_texts_def read_record_def read_csv_def

lemmas demo_eval = demo_def digit_val_def number_of_def decimal.simps iso_show_ts_def
  iso_parse_def plain_show_num_def plain_parse_num_def digit_def


text \<open>The runs on the files of the examples, evaluated step by step.\<close>

lemma load_march: "load_data demo (Some march_file) = Inr march_ledger"
  by (simp add: load_data_def frame_eval csv_eval demo_eval march_file_def march_ledger_def)

lemma display_march: "display demo march_now march_ledger = Inr march_sorted"
  by (simp add: display_def frame_eval march_ledger_def march_sorted_def march_now_def)

lemma display_rows_march:
  "display_rows demo march_now (Some march_file) =
     Inr [(0, [Ts (2024, 3, 2, 0), Str ''Income'', Num 500, Str ''Salary'', Str ''2024-03'']),
          (1, [Ts (2024, 3, 1, 0), Str ''Expense'', Num 30, Str ''Food'', Str ''2024-03''])]"
  by (simp add: display_rows_def load_march display_march)
    (simp add: reset_index_def enumerate_eq_zip march_sorted_def)

lemma edit_form_march:
  "p < 2 \<Longrightarrow> edit_form demo march_now (Some march_file) p = Inr (march_sorted, p)"
proof -
  assume p: "p < 2"
  have r: "body (reset_index march_sorted) =
      [(0, [Ts (2024, 3, 2, 0), Str ''Income'', Num 500, Str ''Salary'', Str ''2024-03'']),
       (1, [Ts (2024, 3, 1, 0), Str ''Expense'', Num 30, Str ''Food'', Str ''2024-03''])]"
    and c: "columns (reset_index march_sorted)
      = [''Date'', ''Type'', ''Amount'', ''Category'', ''Month'']"
    and b: "body march_sorted \<noteq> []"
    by (simp_all add: reset_index_def enumerate_eq_zip march_sorted_def)
  from p have "p = 0 \<or> p = 1" by auto
  then show ?thesis
    by (auto simp: edit_form_def load_march display_march Let_def r c b getitem_def
        cell_at_def float_check_def index_at_def)
qed

section \<open>Totals (C6)\<close>

text \<open>
  C6. For every ledger (a table with a Type and an Amount column whose amounts are
  numbers), \<open>totals\<close> returns as income the sum of the amounts of the rows of type Income,
  as expense the sum of the amounts of the rows of type Expense, and as balance income
  minus expense; on the empty ledger all three are 0.
\<close>

theorem totals_sums:
  "(has_col df ''Type'' \<and> has_col df ''Amount'' \<and> numeric_amounts df \<longrightarrow>
      totals df = Inr (amount_of_type df ''Income'', amount_of_type df ''Expense'',
                       amount_of_type df ''Income'' - amount_of_type df ''Expense''))
   \<and> totals empty_ledger = Inr (0, 0, 0)"
proof -
  have e: "totals empty_ledger = Inr (0, 0, 0)"
    by (simp add: totals_def type_sum_def bind_def getitem_def empty_ledger_def
        bool_index_def eq_mask_def series_sum_def)
  show ?thesis using e by (simp add: totals_def bind_def type_sum_numeric)
qed

theorem totals_sums_witness:
  "has_col march_ledger ''Type'' \<and> has_col march_ledger ''Amount''
   \<and> numeric_amounts march_ledger \<and> totals march_ledger = Inr (500, 30, 470)"
proof -
  have h: "has_col march_ledger ''Type'' \<and> has_col march_ledger ''Amount''
      \<and> numeric_amounts march_ledger"
    by (simp add: has_col_def march_ledger_def numeric_amounts_def col_cell_def cell_at_def)
  have "amount_of_type march_ledger ''Income'' = 500"
    "amount_of_type march_ledger ''Expense'' = 30"
    by (simp_all add: amount_of_type_def march_ledger_def col_cell_def cell_at_def)
  then show ?thesis using h totals_sums [of march_ledger] by simp
qed

section \<open>Budget status (C7)\<close>

text \<open>
  C7. For every monthly expense \<open>x\<close> and limit \<open>l\<close>, the budget status is OverBudget if and
  only if \<open>x > l\<close>; in particular the status of \<open>x\<close> against \<open>x\<close> is WithinBudget, and the
  status of \<open>x + \<epsilon>\<close> against \<open>x\<close> is OverBudget for every \<open>\<epsilon> > 0\<close>.
\<close>

theorem budget_status_boundary:
  "(budget_status x l = OverBudget \<longleftrightarrow> x > l)
   \<and> budget_status x x = WithinBudget
   \<and> (0 < \<epsilon> \<longrightarrow> budget_status (x + \<epsilon>) x = OverBudget)"
  by (simp add: budget_status_def)

theorem budget_status_boundary_witness:
  "(0::real) < 1 / 100 \<and> budget_status (5000 + 1 / 100) 5000 = OverBudget
   \<and> budget_status 5000 5000 = WithinBudget"
  using budget_status_boundary [of 5000 5000 "1 / 100"] by simp

section \<open>Loading (C5)\<close>

text \<open>
  C5. \<open>load_data\<close> returns the empty table with the columns Date, Type, Amount, Category
  when the backing file does not exist. When the file exists (and can be read as a table
  with a Date column), loading does not raise whatever the date fields hold: it returns
  exactly the rows whose date parses, each with its parsed date in place of the text, so
  the rows whose date fails to parse are dropped; and every row of every table that
  \<open>load_data\<close> returns holds a timestamp as its date.
\<close>

theorem load_data_drops_unparsed:
  "load_data cd None = Inr empty_ledger
   \<and> columns empty_ledger = [''Date'', ''Type'', ''Amount'', ''Category'']
   \<and> body empty_ledger = []
   \<and> (read_csv cd f = Inr raw \<and> has_col raw ''Date'' \<longrightarrow>
        load_data cd (Some f) = Inr \<lparr>columns = columns raw,
           body = map (with_parsed_date cd raw) (filter (date_parses cd raw) (body raw))\<rparr>)
   \<and> (load_data cd fs = Inr df \<longrightarrow>
        list_all (\<lambda>lr. is_ts (col_cell df ''Date'' (snd lr))) (body df))"
proof -
  have a: "load_data cd None = Inr empty_ledger" by (simp add: load_data_def)
  have b: "read_csv cd f = Inr raw \<and> has_col raw ''Date'' \<longrightarrow>
        load_data cd (Some f) = Inr \<lparr>columns = columns raw,
           body = map (with_parsed_date cd raw) (filter (date_parses cd raw) (body raw))\<rparr>"
    by (auto simp: load_data_def bind_def has_col_def clean_dates_body)
  have c: "load_data cd fs = Inr df \<longrightarrow>
        list_all (\<lambda>lr. is_ts (col_cell df ''Date'' (snd lr))) (body df)"
  proof (cases fs)
    case None
    then show ?thesis by (auto simp: load_data_def empty_ledger_def)
  next
    case (Some f)
    then show ?thesis
      by (auto simp: load_data_def bind_def split: sum.splits dest: clean_dates_all_ts)
  qed
  show ?thesis using a b c by (simp add: empty_ledger_def)
qed

theorem load_data_drops_unparsed_witness:
  "read_csv demo spoilt_file = Inr spoilt_raw \<and> has_col spoilt_raw ''Date''
   \<and> load_data demo (Some spoilt_file) = Inr spoilt_ledger
   \<and> list_all (\<lambda>lr. is_ts (col_cell spoilt_ledger ''Date'' (snd lr))) (body spoilt_ledger)"
proof -
  have r: "read_csv demo spoilt_file = Inr spoilt_raw"
    by (simp add: csv_eval demo_eval enumerate_eq_zip spoilt_file_def spoilt_raw_def)
  have h: "has_col spoilt_raw ''Date''" by (simp add: has_col_def spoilt_raw_def)
  have e: "\<lparr>columns = columns spoilt_raw,
      body = map (with_parsed_date demo spoilt_raw)
               (filter (date_parses demo spoilt_raw) (body spoilt_raw))\<rparr> = spoilt_ledger"
    by (simp add: with_parsed_date_def date_parses_def col_cell_def cell_at_def to_datetime_def
        demo_eval spoilt_raw_def spoilt_ledger_def)
  have l: "load_data demo (Some spoilt_file) = Inr spoilt_ledger"
    using load_data_drops_unparsed [of demo spoilt_file spoilt_raw] r h e by simp
  show ?thesis
    using load_data_drops_unparsed [of demo spoilt_file spoilt_raw "Some spoilt_file" spoilt_ledger]
      r h l by simp
qed

section \<open>Category breakdown (C8)\<close>



section \<open>Rows of another type (C9)\<close>




section \<open>Amounts on the edit path (C10)\<close>



section \<open>Editing and deleting by display position (C1, C2)\<close>

text \<open>
  C1. The claim is that an edit at position \<open>p\<close> overwrites the row shown at position \<open>p\<close>
  of the date-descending table and leaves every other row unchanged. The script shows
  \<^verbatim>\<open>df_display = df.reset_index(drop=True)\<close> and reads the defaults of the form from its
  row \<open>p\<close>, but then writes through \<^verbatim>\<open>df.loc[df_display.index[p], ...]\<close>: the index of
  \<^verbatim>\<open>df_display\<close> is 0, 1, 2, ..., so the label is \<open>p\<close> itself, and in \<^verbatim>\<open>df\<close> the label
  \<open>p\<close> belongs to the row that was at position \<open>p\<close> of the file. Here the file holds the
  Food expense of 1 March and the salary of 2 March; the table shows the salary at position
  0; an edit at position 0 that raises the amount to 550 leaves the salary at 500 and
  overwrites the Food row.
\<close>

theorem edit_overwrites_file_position:
  "display_rows demo march_now (Some march_file) =
     Inr [(0, [Ts (2024, 3, 2, 0), Str ''Income'', Num 500, Str ''Salary'', Str ''2024-03'']),
          (1, [Ts (2024, 3, 1, 0), Str ''Expense'', Num 30, Str ''Food'', Str ''2024-03''])]
   \<and> edit_transaction demo march_now (Some march_file) 0 (2024, 3, 2) ''Income'' 550 ''Salary'' =
     Inr \<lparr>header = [''Date'', ''Type'', ''Amount'', ''Category'', ''Month''],
          records = [[''2024-03-02'', ''Income'', ''500.0'', ''Salary'', ''2024-03''],
                     [''2024-03-02'', ''Income'', ''550.0'', ''Salary'', ''2024-03'']]\<rparr>"
proof -
  have u: "save_data demo (update_row 0 550 ''Income'' ''Salary'' (2024, 3, 2, 0) march_sorted) =
     \<lparr>header = [''Date'', ''Type'', ''Amount'', ''Category'', ''Month''],
      records = [[''2024-03-02'', ''Income'', ''500.0'', ''Salary'', ''2024-03''],
                 [''2024-03-02'', ''Income'', ''550.0'', ''Salary'', ''2024-03'']]\<rparr>"
    by (simp add: frame_eval demo_eval march_sorted_def)
  have "edit_transaction demo march_now (Some march_file) 0 (2024, 3, 2) ''Income'' 550 ''Salary''
      = Inr (save_data demo (update_row 0 550 ''Income'' ''Salary'' (2024, 3, 2, 0) march_sorted))"
    by (simp add: edit_transaction_def edit_form_march known_type_def midnight_def)
  then show ?thesis
    using u display_rows_march by simp
qed

text \<open>
  C2. The scenario of the claim, run on the code: the two additions give \<open>march_file\<close>;
  the table shows the Income row at position 0 and the Expense row at position 1; deleting
  at position 1 drops the row labelled 1, which is the Income row, so the file keeps the
  Expense row and the totals of the next run are income 0, expense 30, balance -30, where
  the claim has the Income row left and (500, 0, 500).
\<close>

theorem delete_removes_file_position:
  "add_transaction demo None (2024, 3, 1) ''Expense'' 30 ''Food'' = Inr first_file
   \<and> add_transaction demo (Some first_file) (2024, 3, 2) ''Income'' 500 ''Salary'' = Inr march_file
   \<and> display_rows demo march_now (Some march_file) =
     Inr [(0, [Ts (2024, 3, 2, 0), Str ''Income'', Num 500, Str ''Salary'', Str ''2024-03'']),
          (1, [Ts (2024, 3, 1, 0), Str ''Expense'', Num 30, Str ''Food'', Str ''2024-03''])]
   \<and> delete_transaction demo march_now (Some march_file) 1 = Inr after_delete_file
   \<and> bind (load_data demo (Some after_delete_file)) totals = Inr (0, 30, - 30)"
proof -
  have a: "add_transaction demo None (2024, 3, 1) ''Expense'' 30 ''Food'' = Inr first_file"
    by (simp add: add_transaction_def load_data_def frame_eval demo_eval empty_ledger_def
        first_file_def)
  have b: "add_transaction demo (Some first_file) (2024, 3, 2) ''Income'' 500 ''Salary''
      = Inr march_file"
    by (simp add: add_transaction_def load_data_def frame_eval csv_eval demo_eval
        first_file_def march_file_def)
  have c: "display_rows demo march_now (Some march_file) =
     Inr [(0, [Ts (2024, 3, 2, 0), Str ''Income'', Num 500, Str ''Salary'', Str ''2024-03'']),
          (1, [Ts (2024, 3, 1, 0), Str ''Expense'', Num 30, Str ''Food'', Str ''2024-03''])]"
    by (rule display_rows_march)
  have d: "delete_transaction demo march_now (Some march_file) 1 = Inr after_delete_file"
    by (simp add: delete_transaction_def edit_form_march)
      (simp add: frame_eval demo_eval march_sorted_def after_delete_file_def)
  have e: "bind (load_data demo (Some after_delete_file)) totals = Inr (0, 30, - 30)"
    by (simp add: load_data_def frame_eval csv_eval demo_eval after_delete_file_def)
  show ?thesis using a b c d e by simp
qed

end
